theory Spec2Isabelle
  imports Complex_Main "HOL-Library.Sublist"
begin

section \<open>MIDI utilities of the Composer project: src/utils/midi_utils.py\<close>

subsection \<open>Python values used by the module\<close>

text \<open>
  Exceptions are values. \<open>LibraryError\<close> stands for any exception raised inside one of
  the two parsing backends (an unreadable or corrupt file); it carries the text that
  \<open>str(e)\<close> gives. \<open>error_str\<close> is \<open>str(e)\<close>.
\<close>

datatype error =
    FileNotFoundError string
  | ValueError string
  | KeyError string
  | AttributeError string
  | ZeroDivisionError
  | LibraryError string

fun error_str :: "error \<Rightarrow> string" where
  "error_str (FileNotFoundError m) = m"
| "error_str (ValueError m) = m"
| "error_str (KeyError k) = [CHR 0x27] @ k @ [CHR 0x27]"
| "error_str (AttributeError m) = m"
| "error_str ZeroDivisionError = ''division by zero''"
| "error_str (LibraryError m) = m"

text \<open>
  A Python float is a finite value, an infinity or NaN. Finite values are idealised as
  reals: comparisons are exact, the rounding of arithmetic is not modelled.
\<close>

datatype pyfloat = Fin real | PosInf | NegInf | NaN

text \<open>\<open>bool(x)\<close> of a float: only zero is false.\<close>

fun float_truthy :: "pyfloat \<Rightarrow> bool" where
  "float_truthy (Fin r) = (r \<noteq> 0)"
| "float_truthy _ = True"

text \<open>\<open>a > b\<close> and \<open>a < b\<close> on floats; every comparison with NaN is false.\<close>

fun float_gt :: "pyfloat \<Rightarrow> pyfloat \<Rightarrow> bool" where
  "float_gt NaN _ = False"
| "float_gt _ NaN = False"
| "float_gt (Fin a) (Fin b) = (a > b)"
| "float_gt PosInf PosInf = False"
| "float_gt PosInf _ = True"
| "float_gt NegInf _ = False"
| "float_gt (Fin a) PosInf = False"
| "float_gt (Fin a) NegInf = True"

definition float_lt :: "pyfloat \<Rightarrow> pyfloat \<Rightarrow> bool" where
  "float_lt a b = float_gt b a"

text \<open>\<open>a / b\<close> on two Python ints: true division, raising on a zero divisor.\<close>

definition int_truediv :: "int \<Rightarrow> int \<Rightarrow> error + pyfloat" where
  "int_truediv a b = (if b = 0 then Inl ZeroDivisionError else Inr (Fin (real_of_int a / real_of_int b)))"

text \<open>\<open>np.mean\<close> of a list of finite floats; NaN on the empty list.\<close>

definition np_mean :: "real list \<Rightarrow> pyfloat" where
  "np_mean xs = (if xs = [] then NaN else Fin (sum_list xs / real (length xs)))"

text \<open>
  \<open>c / x\<close> with \<open>c\<close> a finite Python number and \<open>x\<close> a numpy float: numpy does not raise
  on a zero divisor, it returns an infinity (NaN for \<open>0 / 0\<close>).
\<close>

fun np_rdiv :: "real \<Rightarrow> pyfloat \<Rightarrow> pyfloat" where
  "np_rdiv c (Fin x) =
     (if x \<noteq> 0 then Fin (c / x) else if c = 0 then NaN else if c > 0 then PosInf else NegInf)"
| "np_rdiv c PosInf = Fin 0"
| "np_rdiv c NegInf = Fin 0"
| "np_rdiv c NaN = NaN"

text \<open>\<open>a * b\<close> on floats.\<close>

fun float_sgn_inf :: "real \<Rightarrow> bool \<Rightarrow> pyfloat" where
  "float_sgn_inf a pos =
     (if a = 0 then NaN else if (a > 0) = pos then PosInf else NegInf)"

fun float_mul :: "pyfloat \<Rightarrow> pyfloat \<Rightarrow> pyfloat" where
  "float_mul NaN _ = NaN"
| "float_mul _ NaN = NaN"
| "float_mul (Fin a) (Fin b) = Fin (a * b)"
| "float_mul (Fin a) PosInf = float_sgn_inf a True"
| "float_mul (Fin a) NegInf = float_sgn_inf a False"
| "float_mul PosInf (Fin b) = float_sgn_inf b True"
| "float_mul NegInf (Fin b) = float_sgn_inf b False"
| "float_mul PosInf PosInf = PosInf"
| "float_mul PosInf NegInf = NegInf"
| "float_mul NegInf PosInf = NegInf"
| "float_mul NegInf NegInf = PosInf"

text \<open>\<open>str(n)\<close> of a Python int, as f-strings render it.\<close>

fun str_nat :: "nat \<Rightarrow> string" where
  "str_nat n =
     (if n < 10 then [''0123456789'' ! n]
      else str_nat (n div 10) @ [''0123456789'' ! (n mod 10)])"

declare str_nat.simps [simp del]

definition str_int :: "int \<Rightarrow> string" where
  "str_int i = (if i < 0 then ''-'' @ str_nat (nat (- i)) else str_nat (nat i))"

subsection \<open>The objects of the two backends\<close>

text \<open>
  Notes, instruments and the two MIDI classes, with the attributes the module reads.
  The type \<open>'t\<close> of note times is \<open>int\<close> (ticks) under miditoolkit and \<open>pyfloat\<close>
  (seconds) under the second backend.
\<close>

record 't midi_note =
  pitch :: int
  start :: 't
  note_end :: 't
  velocity :: int

record 't instrument =
  program :: int
  is_drum :: bool
  name :: string
  inst_notes :: "'t midi_note list"

record tempo_change =
  tempo :: real
  tempo_time :: int

record time_signature =
  numerator :: int
  denominator :: int
  ts_time :: int

record key_signature =
  key_name :: string
  ks_time :: int

record midi_file =
  ticks_per_beat :: int
  max_tick :: int
  tempo_changes :: "tempo_change list"
  time_signature_changes :: "time_signature list"
  key_signature_changes :: "key_signature list"
  instruments :: "int instrument list"

text \<open>\<open>end_time\<close> is the value \<open>get_end_time()\<close> returns.\<close>

record pretty_midi =
  end_time :: pyfloat
  pm_instruments :: "pyfloat instrument list"

text \<open>A loaded object is of one of the two classes.\<close>

datatype midi_obj =
    MidiToolkit midi_file
  | PrettyMIDI pretty_midi

subsection \<open>Files\<close>

text \<open>
  A path is the string \<open>str(Path(file_path))\<close>. The file system maps a path that exists
  to what each backend's constructor does on it: the parsed object, or the exception it
  raises. A path that does not exist maps to \<open>None\<close>.
\<close>

type_synonym path = string

record file_entry =
  by_miditoolkit :: "error + midi_file"
  by_pretty_midi :: "error + pretty_midi"

type_synonym filesystem = "path \<rightharpoonup> file_entry"

subsection \<open>The function load_midi_file\<close>

definition load_midi_file :: "filesystem \<Rightarrow> path \<Rightarrow> string \<Rightarrow> error + midi_obj" where
  "load_midi_file fs file_path backend =
     (case fs file_path of
        None \<Rightarrow> Inl (FileNotFoundError (''MIDI file not found: '' @ file_path))
      | Some entry \<Rightarrow>
          if backend = ''miditoolkit'' then map_sum id MidiToolkit (by_miditoolkit entry)
          else if backend = ''pretty_midi'' then map_sum id PrettyMIDI (by_pretty_midi entry)
          else Inl (ValueError (''Unknown backend: '' @ backend @
                 ''. Use '' @ [CHR 0x27] @ ''miditoolkit'' @ [CHR 0x27] @
                 '' or '' @ [CHR 0x27] @ ''pretty_midi'' @ [CHR 0x27])))"

subsection \<open>The function get_midi_info\<close>

text \<open>
  The info dictionary has a fixed set of keys, each with one type of value; a field is
  \<open>None\<close> when the key is absent. \<open>empty_info\<close> is the dictionary with no key.
\<close>

record inst_info =
  info_program :: int
  info_is_drum :: bool
  info_name :: string
  num_notes :: int

record pitch_range =
  pr_min :: int
  pr_max :: int
  span :: int

record midi_info =
  info_ticks_per_beat :: "int option"
  info_tempo_changes :: "int option"
  info_time_signature_changes :: "int option"
  info_key_signature_changes :: "int option"
  info_instruments :: "inst_info list option"
  total_notes :: "int option"
  info_pitch_range :: "pitch_range option"
  duration_seconds :: "pyfloat option"
  duration_ticks :: "int option"

definition empty_info :: midi_info where
  "empty_info = \<lparr>info_ticks_per_beat = None, info_tempo_changes = None,
     info_time_signature_changes = None, info_key_signature_changes = None,
     info_instruments = None, total_notes = None, info_pitch_range = None,
     duration_seconds = None, duration_ticks = None\<rparr>"

text \<open>The dictionary built for one instrument in the first loop of both functions.\<close>

definition inst_info_of :: "'t instrument \<Rightarrow> inst_info" where
  "inst_info_of inst = \<lparr>info_program = program inst, info_is_drum = is_drum inst,
     info_name = name inst, num_notes = int (length (inst_notes inst))\<rparr>"

text \<open>The first loop: one \<open>append\<close> to \<open>info["instruments"]\<close> per instrument.\<close>

fun append_inst_infos :: "inst_info list \<Rightarrow> 't instrument list \<Rightarrow> inst_info list" where
  "append_inst_infos acc [] = acc"
| "append_inst_infos acc (inst # rest) = append_inst_infos (acc @ [inst_info_of inst]) rest"

text \<open>\<open>sum(len(inst.notes) for inst in midi.instruments)\<close>.\<close>

definition count_notes :: "'t instrument list \<Rightarrow> int" where
  "count_notes insts = sum_list (map (\<lambda>inst. int (length (inst_notes inst))) insts)"

text \<open>The second loop: \<open>all_notes.extend([note.pitch for note in inst.notes])\<close>.\<close>

fun extend_all_notes :: "int list \<Rightarrow> 't instrument list \<Rightarrow> int list" where
  "extend_all_notes acc [] = acc"
| "extend_all_notes acc (inst # rest) =
     extend_all_notes (acc @ map pitch (inst_notes inst)) rest"

text \<open>
  The block under \<open>if midi.instruments:\<close>, the same in both functions. \<open>min\<close> and \<open>max\<close>
  are only called on a non-empty list.
\<close>

definition add_pitch_range :: "'t instrument list \<Rightarrow> midi_info \<Rightarrow> midi_info" where
  "add_pitch_range insts info =
     (if insts \<noteq> [] then
        (case extend_all_notes [] insts of
           [] \<Rightarrow> info
         | p # ps \<Rightarrow>
             info\<lparr>info_pitch_range := Some \<lparr>pr_min = fold min ps p, pr_max = fold max ps p,
               span = fold max ps p - fold min ps p\<rparr>\<rparr>)
      else info)"

definition get_info_miditoolkit :: "midi_file \<Rightarrow> error + midi_info" where
  "get_info_miditoolkit midi =
     (let info = empty_info\<lparr>
            info_ticks_per_beat := Some (ticks_per_beat midi),
            info_tempo_changes := Some (int (length (tempo_changes midi))),
            info_time_signature_changes := Some (int (length (time_signature_changes midi))),
            info_key_signature_changes := Some (int (length (key_signature_changes midi))),
            info_instruments := Some (append_inst_infos [] (instruments midi))\<rparr>;
          info = info\<lparr>total_notes := Some (count_notes (instruments midi))\<rparr>;
          info = add_pitch_range (instruments midi) info
      in if max_tick midi \<noteq> 0 then
           if tempo_changes midi \<noteq> [] then
             (let avg_tempo = np_mean (map tempo (tempo_changes midi))
              in case int_truediv (max_tick midi) (ticks_per_beat midi) of
                   Inl e \<Rightarrow> Inl e
                 | Inr beats \<Rightarrow>
                     Inr (info\<lparr>duration_seconds := Some (float_mul beats (np_rdiv 60 avg_tempo)),
                               duration_ticks := Some (max_tick midi)\<rparr>))
           else Inr info
         else Inr info)"

definition get_info_pretty_midi :: "pretty_midi \<Rightarrow> midi_info" where
  "get_info_pretty_midi midi =
     (let info = empty_info\<lparr>
            duration_seconds := Some (end_time midi),
            info_instruments := Some (append_inst_infos [] (pm_instruments midi))\<rparr>;
          info = info\<lparr>total_notes := Some (count_notes (pm_instruments midi))\<rparr>
      in add_pitch_range (pm_instruments midi) info)"

text \<open>
  The argument is a path, a loaded object of one of the two classes, or an object of
  any other class (\<open>OtherArg\<close> carries \<open>str(type(x))\<close>). The function only reads a
  loaded object, so the object itself is passed.
\<close>

datatype midi_arg = PathArg path | ObjArg midi_obj | OtherArg string

definition get_midi_info :: "filesystem \<Rightarrow> midi_arg \<Rightarrow> error + midi_info" where
  "get_midi_info fs midi_file =
     (case midi_file of
        PathArg p \<Rightarrow>
          (case load_midi_file fs p ''miditoolkit'' of
             Inl e \<Rightarrow> Inl e
           | Inr (MidiToolkit m) \<Rightarrow> get_info_miditoolkit m
           | Inr (PrettyMIDI m) \<Rightarrow> Inr (get_info_pretty_midi m))
      | ObjArg (MidiToolkit m) \<Rightarrow> get_info_miditoolkit m
      | ObjArg (PrettyMIDI m) \<Rightarrow> Inr (get_info_pretty_midi m)
      | OtherArg t \<Rightarrow> Inl (ValueError (''Unknown MIDI type: '' @ t)))"

subsection \<open>The function validate_midi_file\<close>

text \<open>
  The text Python prints for a float is not modelled; the two renderings the f-strings
  use are parameters: \<open>fmt_1f\<close> for \<open>{x:.1f}\<close> and \<open>fmt_str\<close> for \<open>{x}\<close>.
\<close>

record float_format =
  fmt_1f :: "pyfloat \<Rightarrow> string"
  fmt_str :: "pyfloat \<Rightarrow> string"

text \<open>
  The block under \<open>if "duration_seconds" in info:\<close>; \<open>Some\<close> is an early return.
  An optional bound is tested by its truth value, then compared.
\<close>

definition duration_checks ::
  "float_format \<Rightarrow> pyfloat \<Rightarrow> pyfloat option \<Rightarrow> pyfloat option \<Rightarrow> (bool \<times> string) option" where
  "duration_checks ff duration max_duration min_duration =
     (if (case max_duration of None \<Rightarrow> False
          | Some mx \<Rightarrow> float_truthy mx \<and> float_gt duration mx)
      then Some (False, ''Duration too long: '' @ fmt_1f ff duration @ ''s > '' @
                   fmt_str ff (the max_duration) @ ''s'')
      else if (case min_duration of None \<Rightarrow> False
               | Some mn \<Rightarrow> float_truthy mn \<and> float_lt duration mn)
      then Some (False, ''Duration too short: '' @ fmt_1f ff duration @ ''s < '' @
                   fmt_str ff (the min_duration) @ ''s'')
      else None)"

text \<open>The body of the \<open>try\<close> block, after \<open>get_midi_info\<close> has returned.\<close>

definition validate_info ::
  "float_format \<Rightarrow> midi_info \<Rightarrow> int \<Rightarrow> pyfloat option \<Rightarrow> pyfloat option \<Rightarrow> bool
     \<Rightarrow> error + (bool \<times> string)" where
  "validate_info ff info min_notes max_duration min_duration require_tempo =
     (case total_notes info of
        None \<Rightarrow> Inl (KeyError ''total_notes'')
      | Some n \<Rightarrow>
          if n < min_notes
          then Inr (False, ''Too few notes: '' @ str_int n @ '' < '' @ str_int min_notes)
          else
            (case (case duration_seconds info of
                     None \<Rightarrow> None
                   | Some duration \<Rightarrow> duration_checks ff duration max_duration min_duration) of
               Some r \<Rightarrow> Inr r
             | None \<Rightarrow>
                 if require_tempo \<and>
                    (case info_tempo_changes info of None \<Rightarrow> True | Some c \<Rightarrow> c = 0)
                 then Inr (False, ''No tempo changes found'')
                 else Inr (True, ''Valid'')))"

text \<open>
  The \<open>try\<close> block: any exception raised in it is an \<open>Inl\<close>. The parameter
  \<open>file_path\<close> is annotated as a path, but it is handed to \<open>get_midi_info\<close> as it
  is, and that function also takes a loaded object; so the argument is a \<open>midi_arg\<close>.
\<close>

definition validate_try ::
  "float_format \<Rightarrow> filesystem \<Rightarrow> midi_arg \<Rightarrow> int \<Rightarrow> pyfloat option \<Rightarrow> pyfloat option \<Rightarrow> bool
     \<Rightarrow> error + (bool \<times> string)" where
  "validate_try ff fs file_path min_notes max_duration min_duration require_tempo =
     (case get_midi_info fs file_path of
        Inl e \<Rightarrow> Inl e
      | Inr info \<Rightarrow> validate_info ff info min_notes max_duration min_duration require_tempo)"

text \<open>The whole function: \<open>except Exception as e\<close> turns the exception into a result.\<close>

definition validate_midi_file ::
  "float_format \<Rightarrow> filesystem \<Rightarrow> midi_arg \<Rightarrow> int \<Rightarrow> pyfloat option \<Rightarrow> pyfloat option \<Rightarrow> bool
     \<Rightarrow> bool \<times> string" where
  "validate_midi_file ff fs file_path min_notes max_duration min_duration require_tempo =
     (case validate_try ff fs file_path min_notes max_duration min_duration require_tempo of
        Inl e \<Rightarrow> (False, ''Error loading MIDI: '' @ error_str e)
      | Inr r \<Rightarrow> r)"

subsection \<open>The function filter_midi_by_instrument\<close>

text \<open>
  The loop over \<open>midi.instruments\<close>; \<open>acc\<close> is \<open>filtered_instruments\<close>.
  \<open>program_numbers\<close> is \<open>None\<close> or a list.
\<close>

fun filter_loop ::
  "int list option \<Rightarrow> bool \<Rightarrow> 't instrument list \<Rightarrow> 't instrument list \<Rightarrow> 't instrument list" where
  "filter_loop program_numbers exclude_drums acc [] = acc"
| "filter_loop program_numbers exclude_drums acc (inst # rest) =
     (if exclude_drums \<and> is_drum inst then filter_loop program_numbers exclude_drums acc rest
      else if (case program_numbers of None \<Rightarrow> True | Some ps \<Rightarrow> program inst \<in> set ps)
      then filter_loop program_numbers exclude_drums (acc @ [inst]) rest
      else filter_loop program_numbers exclude_drums acc rest)"

text \<open>
  The function assigns to an attribute of its argument, so loaded objects live in a
  store and are passed by reference: a reference is an index of the store. Loading a
  file allocates a new object at the end of the store. Python has no dangling
  reference; the theorems below are about references inside the store.
\<close>

type_synonym ref = nat
type_synonym store = "midi_obj list"

datatype midi_ref_arg = PathRef path | ObjRef ref

text \<open>The first four lines: \<open>midi\<close> is the loaded object or the argument itself.\<close>

definition resolve_midi :: "filesystem \<Rightarrow> store \<Rightarrow> midi_ref_arg \<Rightarrow> error + (store \<times> ref)" where
  "resolve_midi fs h midi_file =
     (case midi_file of
        PathRef p \<Rightarrow>
          (case load_midi_file fs p ''miditoolkit'' of
             Inl e \<Rightarrow> Inl e
           | Inr obj \<Rightarrow> Inr (h @ [obj], length h))
      | ObjRef r \<Rightarrow> Inr (h, r))"

text \<open>\<open>midi.instruments = filtered_instruments\<close> on the object a reference points to.\<close>

definition set_filtered :: "int list option \<Rightarrow> bool \<Rightarrow> midi_obj \<Rightarrow> midi_obj" where
  "set_filtered program_numbers exclude_drums obj =
     (case obj of
        MidiToolkit m \<Rightarrow>
          MidiToolkit (m\<lparr>instruments := filter_loop program_numbers exclude_drums [] (instruments m)\<rparr>)
      | PrettyMIDI m \<Rightarrow>
          PrettyMIDI (m\<lparr>pm_instruments :=
            filter_loop program_numbers exclude_drums [] (pm_instruments m)\<rparr>))"

definition filter_midi_by_instrument ::
  "filesystem \<Rightarrow> store \<Rightarrow> midi_ref_arg \<Rightarrow> int list option \<Rightarrow> bool \<Rightarrow> error + (store \<times> ref)" where
  "filter_midi_by_instrument fs h midi_file program_numbers exclude_drums =
     (case resolve_midi fs h midi_file of
        Inl e \<Rightarrow> Inl e
      | Inr (h1, midi) \<Rightarrow>
          Inr (h1[midi := set_filtered program_numbers exclude_drums (h1 ! midi)], midi))"

subsection \<open>Example data\<close>

text \<open>
  An object with a piano track of two notes, a drum track and an empty violin track,
  two beats long at 120 beats per minute, which is also what the file \<open>song.mid\<close>
  parses to; a file neither backend can parse. Two more objects are built in memory
  and belong to no file: the piano track with an empty \<open>tempo_changes\<close> list, and an
  object with no note and \<open>max_tick = 0\<close>. The loader of the first backend puts a
  default tempo entry into every object it reads from a file and sets \<open>max_tick\<close> past
  the last event, so no path of the file system maps to these two. After them, the
  dictionaries \<open>get_midi_info\<close> is expected to return on the three objects.
\<close>

definition example_piano :: "int instrument" where
  "example_piano = \<lparr>program = 0, is_drum = False, name = ''Piano'',
     inst_notes = [\<lparr>pitch = 60, start = 0, note_end = 480, velocity = 90\<rparr>,
                   \<lparr>pitch = 72, start = 480, note_end = 960, velocity = 80\<rparr>]\<rparr>"

definition example_drums :: "int instrument" where
  "example_drums = \<lparr>program = 0, is_drum = True, name = ''Drums'',
     inst_notes = [\<lparr>pitch = 36, start = 0, note_end = 120, velocity = 100\<rparr>]\<rparr>"

definition example_violin :: "int instrument" where
  "example_violin = \<lparr>program = 40, is_drum = False, name = ''Violin'', inst_notes = []\<rparr>"

definition example_midi :: midi_file where
  "example_midi = \<lparr>ticks_per_beat = 480, max_tick = 960,
     tempo_changes = [\<lparr>tempo = 120, tempo_time = 0\<rparr>],
     time_signature_changes = [], key_signature_changes = [],
     instruments = [example_piano, example_drums, example_violin]\<rparr>"

definition example_untimed :: midi_file where
  "example_untimed = \<lparr>ticks_per_beat = 480, max_tick = 960,
     tempo_changes = [],
     time_signature_changes = [], key_signature_changes = [],
     instruments = [example_piano]\<rparr>"

definition example_silent :: midi_file where
  "example_silent = \<lparr>ticks_per_beat = 480, max_tick = 0,
     tempo_changes = [\<lparr>tempo = 120, tempo_time = 0\<rparr>],
     time_signature_changes = [], key_signature_changes = [],
     instruments = [example_violin]\<rparr>"

definition example_pretty :: pretty_midi where
  "example_pretty = \<lparr>end_time = Fin 1,
     pm_instruments = [\<lparr>program = 0, is_drum = False, name = ''Piano'',
       inst_notes = [\<lparr>pitch = 60, start = Fin 0, note_end = Fin (1/2), velocity = 90\<rparr>,
                     \<lparr>pitch = 72, start = Fin (1/2), note_end = Fin 1, velocity = 80\<rparr>]\<rparr>]\<rparr>"

definition example_fs :: filesystem where
  "example_fs = [
     ''song.mid'' \<mapsto>
       \<lparr>by_miditoolkit = Inr example_midi, by_pretty_midi = Inr example_pretty\<rparr>,
     ''broken.mid'' \<mapsto>
       \<lparr>by_miditoolkit = Inl (LibraryError ''data byte must be in range 0..127''),
        by_pretty_midi = Inl (LibraryError ''data byte must be in range 0..127'')\<rparr>]"

text \<open>A rendering of floats for the examples; no example result contains a float.\<close>

definition example_format :: float_format where
  "example_format = \<lparr>fmt_1f = (\<lambda>_. ''?''), fmt_str = (\<lambda>_. ''?'')\<rparr>"

definition example_info :: midi_info where
  "example_info = \<lparr>info_ticks_per_beat = Some 480, info_tempo_changes = Some 1,
     info_time_signature_changes = Some 0, info_key_signature_changes = Some 0,
     info_instruments = Some [
       \<lparr>info_program = 0, info_is_drum = False, info_name = ''Piano'', num_notes = 2\<rparr>,
       \<lparr>info_program = 0, info_is_drum = True, info_name = ''Drums'', num_notes = 1\<rparr>,
       \<lparr>info_program = 40, info_is_drum = False, info_name = ''Violin'', num_notes = 0\<rparr>],
     total_notes = Some 3,
     info_pitch_range = Some \<lparr>pr_min = 36, pr_max = 72, span = 36\<rparr>,
     duration_seconds = Some (Fin 1), duration_ticks = Some 960\<rparr>"


definition example_silent_info :: midi_info where
  "example_silent_info = \<lparr>info_ticks_per_beat = Some 480, info_tempo_changes = Some 1,
     info_time_signature_changes = Some 0, info_key_signature_changes = Some 0,
     info_instruments = Some [
       \<lparr>info_program = 40, info_is_drum = False, info_name = ''Violin'', num_notes = 0\<rparr>],
     total_notes = Some 0,
     info_pitch_range = None,
     duration_seconds = None, duration_ticks = None\<rparr>"

section \<open>Properties\<close>

subsection \<open>Helper lemmas\<close>

lemma append_inst_infos_map: "append_inst_infos acc insts = acc @ map inst_info_of insts"
  by (induction insts arbitrary: acc) simp_all

lemma extend_all_notes_concat:
  "extend_all_notes acc insts = acc @ concat (map (\<lambda>i. map pitch (inst_notes i)) insts)"
  by (induction insts arbitrary: acc) simp_all

lemma filter_loop_filter:
  "filter_loop pn ex acc insts =
     acc @ filter (\<lambda>i. \<not> (ex \<and> is_drum i) \<and>
                      (case pn of None \<Rightarrow> True | Some ps \<Rightarrow> program i \<in> set ps)) insts"
  by (induction insts arbitrary: acc) auto

lemma validate_midi_file_unfold:
  "get_midi_info fs arg = Inr info \<Longrightarrow>
   validate_midi_file ff fs arg mn mx mi rt =
     (case validate_info ff info mn mx mi rt of
        Inl e \<Rightarrow> (False, ''Error loading MIDI: '' @ error_str e) | Inr r \<Rightarrow> r)"
  by (simp add: validate_midi_file_def validate_try_def)

text \<open>A path is always opened with the first backend.\<close>

lemma get_midi_info_path:
  "get_midi_info fs (PathArg p) =
     (case fs p of
        None \<Rightarrow> Inl (FileNotFoundError (''MIDI file not found: '' @ p))
      | Some entry \<Rightarrow>
          (case by_miditoolkit entry of Inl e \<Rightarrow> Inl e | Inr m \<Rightarrow> get_info_miditoolkit m))"
  by (simp add: get_midi_info_def load_midi_file_def split: option.splits sum.splits)

lemma get_info_miditoolkit_fields:
  assumes "get_info_miditoolkit m = Inr info"
  shows "info_tempo_changes info = Some (int (length (tempo_changes m)))"
    and "total_notes info = Some (count_notes (instruments m))"
    and "info_instruments info = Some (append_inst_infos [] (instruments m))"
    and "info_pitch_range info = info_pitch_range (add_pitch_range (instruments m) empty_info)"
    and "duration_seconds info = None \<longleftrightarrow> max_tick m = 0 \<or> tempo_changes m = []"
  using assms
  by (auto simp: get_info_miditoolkit_def Let_def add_pitch_range_def empty_info_def
           split: if_splits sum.splits list.splits)


lemma get_info_pretty_midi_fields:
  "total_notes (get_info_pretty_midi m) = Some (count_notes (pm_instruments m))"
  "info_instruments (get_info_pretty_midi m) = Some (append_inst_infos [] (pm_instruments m))"
  "info_pitch_range (get_info_pretty_midi m) =
     info_pitch_range (add_pitch_range (pm_instruments m) empty_info)"
  by (auto simp: get_info_pretty_midi_def Let_def add_pitch_range_def empty_info_def
           split: list.splits)




lemma sum_num_notes:
  "sum_list (map (num_notes \<circ> inst_info_of) insts) = count_notes insts"
  by (simp add: count_notes_def inst_info_of_def comp_def)

text \<open>
  The pitch range in terms of the list of all pitches: Python's \<open>min\<close> and \<open>max\<close>,
  folds over the list, are the least and the greatest element.
\<close>

lemma add_pitch_range_spec:
  "info_pitch_range (add_pitch_range insts info) =
     (let ps = concat (map (\<lambda>i. map pitch (inst_notes i)) insts)
      in if ps = [] then info_pitch_range info
         else Some \<lparr>pr_min = Min (set ps), pr_max = Max (set ps),
                      span = Max (set ps) - Min (set ps)\<rparr>)"
proof (cases "concat (map (\<lambda>i. map pitch (inst_notes i)) insts)")
  case Nil
  show ?thesis
    by (simp add: Nil add_pitch_range_def extend_all_notes_concat del: concat_eq_Nil_conv)
next
  case (Cons p ps)
  then have "insts \<noteq> []" by auto
  then show ?thesis
    by (simp add: Cons add_pitch_range_def extend_all_notes_concat Let_def
          Min.set_eq_fold [symmetric] Max.set_eq_fold [symmetric]
          del: set_concat concat_eq_Nil_conv)
qed

subsection \<open>The examples, evaluated\<close>

lemmas example_defs =
  example_fs_def example_midi_def example_untimed_def example_silent_def example_pretty_def
  example_piano_def example_drums_def example_violin_def example_format_def

lemmas eval_defs =
  example_defs get_info_miditoolkit_def get_info_pretty_midi_def empty_info_def
  count_notes_def add_pitch_range_def inst_info_of_def int_truediv_def np_mean_def

lemma example_midi_info: "get_info_miditoolkit example_midi = Inr example_info"
  by (simp add: eval_defs example_info_def)


lemma example_silent_midi_info: "get_info_miditoolkit example_silent = Inr example_silent_info"
  by (simp add: eval_defs example_silent_info_def)

lemma example_song_info: "get_midi_info example_fs (PathArg ''song.mid'') = Inr example_info"
  using example_midi_info by (simp add: get_midi_info_path example_fs_def)


lemma str_int_examples: "str_int 2 = ''2''" "str_int 3 = ''3''" "str_int 10 = ''10''"
  by (simp_all add: str_int_def str_nat.simps)

subsection \<open>Loading\<close>

text \<open>
  C7. On a path that exists, \<open>load_midi_file\<close> raises \<open>ValueError\<close> for every backend
  name other than the two known ones. On a path that does not exist it raises
  \<open>FileNotFoundError\<close> whatever the backend name is: existence is tested first.
\<close>

theorem load_midi_file_raises:
  "(fs p = None \<longrightarrow>
      load_midi_file fs p backend = Inl (FileNotFoundError (''MIDI file not found: '' @ p)))
   \<and> (fs p \<noteq> None \<longrightarrow> backend \<noteq> ''miditoolkit'' \<longrightarrow> backend \<noteq> ''pretty_midi'' \<longrightarrow>
      (\<exists>msg. load_midi_file fs p backend = Inl (ValueError msg)))"
  by (auto simp: load_midi_file_def)

theorem load_midi_file_raises_witness:
  "example_fs ''nosuch.mid'' = None
   \<and> load_midi_file example_fs ''nosuch.mid'' ''mido'' =
       Inl (FileNotFoundError ''MIDI file not found: nosuch.mid'')
   \<and> example_fs ''song.mid'' \<noteq> None
   \<and> (\<exists>msg. load_midi_file example_fs ''song.mid'' ''mido'' = Inl (ValueError msg))"
  using load_midi_file_raises [of example_fs "''nosuch.mid''" "''mido''"]
        load_midi_file_raises [of example_fs "''song.mid''" "''mido''"]
  by (simp add: example_fs_def)

subsection \<open>The info dictionary\<close>

text \<open>
  C5. Under either backend, the \<open>instruments\<close> list of the info dictionary has one entry
  per instrument of the object, in the same order, and \<open>total_notes\<close> is the sum of the
  \<open>num_notes\<close> fields of that list.
\<close>

theorem info_total_notes:
  "(get_midi_info fs (ObjArg (MidiToolkit m)) = Inr info \<longrightarrow>
      info_instruments info = Some (map inst_info_of (instruments m)) \<and>
      total_notes info = Some (sum_list (map num_notes (map inst_info_of (instruments m)))))
   \<and> (get_midi_info fs (ObjArg (PrettyMIDI pm)) = Inr info' \<longrightarrow>
      info_instruments info' = Some (map inst_info_of (pm_instruments pm)) \<and>
      total_notes info' = Some (sum_list (map num_notes (map inst_info_of (pm_instruments pm)))))"
  by (auto simp: get_midi_info_def sum_num_notes get_info_pretty_midi_fields
        get_info_miditoolkit_fields append_inst_infos_map)

theorem info_total_notes_witness:
  "get_midi_info example_fs (ObjArg (MidiToolkit example_midi)) = Inr example_info
   \<and> info_instruments example_info = Some (map inst_info_of (instruments example_midi))
   \<and> total_notes example_info = Some 3
   \<and> get_midi_info example_fs (ObjArg (PrettyMIDI example_pretty)) =
       Inr (get_info_pretty_midi example_pretty)
   \<and> total_notes (get_info_pretty_midi example_pretty) = Some 2"
  using info_total_notes [of example_fs example_midi example_info example_pretty
          "get_info_pretty_midi example_pretty"] example_midi_info
  by (simp add: get_midi_info_def) (simp add: example_defs inst_info_of_def)

text \<open>
  C6. Under either backend, when the object has at least one note the info dictionary
  has a \<open>pitch_range\<close> whose \<open>min\<close> and \<open>max\<close> are the least and the greatest pitch over
  all notes of all instruments and whose \<open>span\<close> is their difference, so \<open>min \<le> max\<close>
  and \<open>span \<ge> 0\<close>; when it has no note the key is absent.
\<close>

theorem info_pitch_range_spec:
  "(get_midi_info fs (ObjArg (MidiToolkit m)) = Inr info \<longrightarrow>
      (let ps = concat (map (\<lambda>i. map pitch (inst_notes i)) (instruments m))
       in if ps = [] then info_pitch_range info = None
          else info_pitch_range info =
                 Some \<lparr>pr_min = Min (set ps), pr_max = Max (set ps),
                        span = Max (set ps) - Min (set ps)\<rparr> \<and>
               Min (set ps) \<le> Max (set ps) \<and> 0 \<le> Max (set ps) - Min (set ps)))
   \<and> (get_midi_info fs (ObjArg (PrettyMIDI pm)) = Inr info' \<longrightarrow>
      (let ps = concat (map (\<lambda>i. map pitch (inst_notes i)) (pm_instruments pm))
       in if ps = [] then info_pitch_range info' = None
          else info_pitch_range info' =
                 Some \<lparr>pr_min = Min (set ps), pr_max = Max (set ps),
                        span = Max (set ps) - Min (set ps)\<rparr> \<and>
               Min (set ps) \<le> Max (set ps) \<and> 0 \<le> Max (set ps) - Min (set ps)))"
proof -
  have mm: "ps \<noteq> [] \<Longrightarrow> Min (set ps) \<le> Max (set ps)" for ps :: "int list"
    by (meson Min_le Max_in List.finite_set set_empty)
  have e: "info_pitch_range empty_info = None" by (simp add: empty_info_def)
  show ?thesis
    using mm
    by (auto simp: get_midi_info_def get_info_pretty_midi_fields get_info_miditoolkit_fields
          add_pitch_range_spec e Let_def simp del: set_concat)
qed

theorem info_pitch_range_spec_witness:
  "get_midi_info example_fs (ObjArg (MidiToolkit example_midi)) = Inr example_info
   \<and> info_pitch_range example_info = Some \<lparr>pr_min = 36, pr_max = 72, span = 36\<rparr>
   \<and> get_midi_info example_fs (ObjArg (MidiToolkit example_silent)) = Inr example_silent_info
   \<and> info_pitch_range example_silent_info = None
   \<and> info_pitch_range (get_info_pretty_midi example_pretty) =
       Some \<lparr>pr_min = 60, pr_max = 72, span = 12\<rparr>"
  using info_pitch_range_spec [of example_fs example_midi example_info example_pretty
          "get_info_pretty_midi example_pretty"] example_midi_info
        info_pitch_range_spec [of example_fs example_silent example_silent_info example_pretty
          "get_info_pretty_midi example_pretty"] example_silent_midi_info
  by (simp add: get_midi_info_def example_info_def example_silent_info_def)
     (simp add: eval_defs)

subsection \<open>Validation\<close>

text \<open>
  C1. When the info extracted from the file has \<open>total_notes\<close> below \<open>min_notes\<close>, the
  result is \<open>False\<close> with a reason that states both counts; when \<open>total_notes\<close> is at
  least \<open>min_notes\<close>, the result is not the too-few-notes rejection.
\<close>

theorem validate_min_notes:
  assumes "get_midi_info fs (PathArg p) = Inr info" and "total_notes info = Some n"
  shows "(n < min_notes \<longrightarrow>
            validate_midi_file ff fs (PathArg p) min_notes max_duration min_duration require_tempo =
              (False, ''Too few notes: '' @ str_int n @ '' < '' @ str_int min_notes))
         \<and> (min_notes \<le> n \<longrightarrow>
            \<not> prefix ''Too few notes''
                (snd (validate_midi_file ff fs (PathArg p) min_notes max_duration min_duration
                        require_tempo)))"
  using assms
  by (auto simp: validate_midi_file_unfold validate_info_def duration_checks_def
           split: option.splits)

theorem validate_min_notes_witness:
  "get_midi_info example_fs (PathArg ''song.mid'') = Inr example_info
   \<and> total_notes example_info = Some 3
   \<and> validate_midi_file example_format example_fs (PathArg ''song.mid'') 10 None None False =
       (False, ''Too few notes: 3 < 10'')
   \<and> \<not> prefix ''Too few notes''
        (snd (validate_midi_file example_format example_fs (PathArg ''song.mid'') 3 None None
                False))"
  using validate_min_notes [OF example_song_info, of 3 10 example_format None None False]
        validate_min_notes [OF example_song_info, of 3 3 example_format None None False]
  by (simp add: example_song_info example_info_def str_int_examples)

text \<open>
  C2. The duration bounds are documented as "None for no limit", but each bound is
  tested by its truth value, so a bound of zero is skipped as well. The example file
  lasts one second and has three notes; with \<open>max_duration = 0.0\<close> the duration
  exceeds the bound, and the file is accepted.
\<close>

theorem validate_zero_max_duration:
  "get_midi_info example_fs (PathArg ''song.mid'') = Inr example_info
   \<and> duration_seconds example_info = Some (Fin 1)
   \<and> float_gt (Fin 1) (Fin 0)
   \<and> validate_midi_file example_format example_fs (PathArg ''song.mid'') 3 (Some (Fin 0)) None
         False =
       (True, ''Valid'')"
  by (simp add: example_song_info validate_midi_file_unfold [OF example_song_info]
        validate_info_def duration_checks_def example_info_def)




text \<open>
  C8. \<open>validate_midi_file\<close> always returns a pair. Whenever anything in the \<open>try\<close> block
  raises, and so whenever \<open>get_midi_info\<close> raises (a missing file, a file the backend
  cannot parse), the result is \<open>False\<close> with the reason \<open>"Error loading MIDI: "\<close>
  followed by the text of the exception.
\<close>

theorem validate_midi_file_total:
  "(\<exists>ok reason.
      validate_midi_file ff fs arg min_notes max_duration min_duration require_tempo = (ok, reason))
   \<and> (validate_try ff fs arg min_notes max_duration min_duration require_tempo = Inl e \<longrightarrow>
      validate_midi_file ff fs arg min_notes max_duration min_duration require_tempo =
        (False, ''Error loading MIDI: '' @ error_str e))
   \<and> (get_midi_info fs arg = Inl e \<longrightarrow>
      validate_midi_file ff fs arg min_notes max_duration min_duration require_tempo =
        (False, ''Error loading MIDI: '' @ error_str e))
   \<and> (fs p = None \<longrightarrow>
      validate_midi_file ff fs (PathArg p) min_notes max_duration min_duration require_tempo =
        (False, ''Error loading MIDI: MIDI file not found: '' @ p))
   \<and> (\<forall>entry. fs p = Some entry \<longrightarrow> by_miditoolkit entry = Inl e \<longrightarrow>
      validate_midi_file ff fs (PathArg p) min_notes max_duration min_duration require_tempo =
        (False, ''Error loading MIDI: '' @ error_str e))"
  by (simp add: validate_midi_file_def validate_try_def get_midi_info_path
           split: sum.splits)

theorem validate_midi_file_total_witness:
  "example_fs ''nosuch.mid'' = None
   \<and> validate_midi_file example_format example_fs (PathArg ''nosuch.mid'') 10 None None False =
       (False, ''Error loading MIDI: MIDI file not found: nosuch.mid'')
   \<and> get_midi_info example_fs (PathArg ''broken.mid'') =
       Inl (LibraryError ''data byte must be in range 0..127'')
   \<and> validate_midi_file example_format example_fs (PathArg ''broken.mid'') 10 None None False =
       (False, ''Error loading MIDI: data byte must be in range 0..127'')"
  using validate_midi_file_total [where ff = example_format and fs = example_fs
          and arg = "PathArg ''nosuch.mid''" and p = "''nosuch.mid''" and min_notes = 10
          and max_duration = None and min_duration = None and require_tempo = False
          and e = "FileNotFoundError ''MIDI file not found: nosuch.mid''"]
        validate_midi_file_total [where ff = example_format and fs = example_fs
          and arg = "PathArg ''broken.mid''" and p = "''broken.mid''" and min_notes = 10
          and max_duration = None and min_duration = None and require_tempo = False
          and e = "LibraryError ''data byte must be in range 0..127''"]
  by (simp add: example_fs_def get_midi_info_path validate_try_def)



subsection \<open>Filtering\<close>

text \<open>
  C4. Whether the object is loaded from a path or passed in, the instruments of the
  result are exactly the instruments of the input that are not excluded as drum tracks
  and whose program is in \<open>program_numbers\<close> when that is a list, in their original
  order. So no instrument of the result is a drum track when \<open>exclude_drums\<close> is set,
  each has its program in the list when there is one, and with \<open>program_numbers = None\<close>
  every instrument that is not excluded is kept.
\<close>

theorem filter_midi_by_instrument_keeps:
  assumes "resolve_midi fs h midi_file = Inr (h1, r)" and "r < length h1"
    and "h1 ! r = MidiToolkit m"
  shows "\<exists>h2 m'. filter_midi_by_instrument fs h midi_file program_numbers exclude_drums = Inr (h2, r)
           \<and> h2 ! r = MidiToolkit m'
           \<and> instruments m' =
               filter (\<lambda>i. \<not> (exclude_drums \<and> is_drum i) \<and>
                            (case program_numbers of None \<Rightarrow> True
                             | Some ps \<Rightarrow> program i \<in> set ps)) (instruments m)
           \<and> (\<forall>i \<in> set (instruments m').
                 (exclude_drums \<longrightarrow> \<not> is_drum i) \<and>
                 (\<forall>ps. program_numbers = Some ps \<longrightarrow> program i \<in> set ps))
           \<and> (program_numbers = None \<longrightarrow>
                 instruments m' = filter (\<lambda>i. \<not> (exclude_drums \<and> is_drum i)) (instruments m))"
  using assms
  by (auto simp: filter_midi_by_instrument_def set_filtered_def filter_loop_filter)

theorem filter_midi_by_instrument_keeps_witness:
  "resolve_midi example_fs [] (PathRef ''song.mid'') = Inr ([MidiToolkit example_midi], 0)
   \<and> filter_midi_by_instrument example_fs [] (PathRef ''song.mid'')
         (Some [0, 1, 2, 3, 4, 5, 6, 7]) True =
       Inr ([MidiToolkit (example_midi\<lparr>instruments := [example_piano]\<rparr>)], 0)"
  using filter_midi_by_instrument_keeps [of example_fs "[]" "PathRef ''song.mid''"
          "[MidiToolkit example_midi]" 0 example_midi "Some [0, 1, 2, 3, 4, 5, 6, 7]" True]
  by (simp add: resolve_midi_def load_midi_file_def filter_midi_by_instrument_def set_filtered_def
        example_defs)

text \<open>
  C10. Given a loaded object, \<open>filter_midi_by_instrument\<close> returns the reference it was
  given, and no new object is allocated. After the call the object at that reference
  has the filtered list as its \<open>instruments\<close> and all its other fields as before; every
  other object of the store is unchanged.
\<close>

theorem filter_midi_by_instrument_in_place:
  assumes "r < length h" and "h ! r = MidiToolkit m"
  shows "\<exists>h' m'. filter_midi_by_instrument fs h (ObjRef r) program_numbers exclude_drums = Inr (h', r)
           \<and> length h' = length h
           \<and> h' ! r = MidiToolkit m'
           \<and> instruments m' = filter_loop program_numbers exclude_drums [] (instruments m)
           \<and> ticks_per_beat m' = ticks_per_beat m \<and> max_tick m' = max_tick m
           \<and> tempo_changes m' = tempo_changes m
           \<and> time_signature_changes m' = time_signature_changes m
           \<and> key_signature_changes m' = key_signature_changes m
           \<and> (\<forall>j. j \<noteq> r \<longrightarrow> h' ! j = h ! j)"
  using assms
  by (auto simp: filter_midi_by_instrument_def resolve_midi_def set_filtered_def)

theorem filter_midi_by_instrument_in_place_witness:
  "filter_midi_by_instrument example_fs [MidiToolkit example_untimed, MidiToolkit example_midi]
       (ObjRef 1) None True =
     Inr ([MidiToolkit example_untimed,
           MidiToolkit (example_midi\<lparr>instruments := [example_piano, example_violin]\<rparr>)], 1)"
  using filter_midi_by_instrument_in_place
          [of 1 "[MidiToolkit example_untimed, MidiToolkit example_midi]"
              example_midi example_fs None True]
  by (simp add: resolve_midi_def filter_midi_by_instrument_def set_filtered_def example_defs)

end
